theory Spec2Isabelle
  imports Complex_Main
begin

section \<open>The metrics broadcast server (server/app/main.py)\<close>

text \<open>
  The module is one asyncio program: a background task \<open>broadcast_metrics_loop\<close>, one
  \<open>websocket_endpoint\<close> coroutine per accepted connection, and the two lifecycle hooks.
  All of them run on one event loop, so a coroutine is interrupted only at an
  \<open>await\<close>. Each coroutine is modelled as a function on the module's global state; what the
  other coroutines and the outside world do while it is suspended at an \<open>await\<close> is an
  explicit input (an environment record): the registry changes made by connection handlers,
  the result of each network call, and whether a cancellation is delivered there.

  A Python float is represented by the real number it denotes (infinities and NaN are left
  out). What the float operations compute is not fixed by the model: the conversion of an
  integer, the division and \<open>round\<close> are parameters (\<open>float_ops\<close>).
\<close>

subsection \<open>Exceptions\<close>

text \<open>
  \<open>CancelledError\<close> derives from \<open>BaseException\<close>, not from \<open>Exception\<close>
  (Python 3.8 and later); \<open>WebSocketDisconnect\<close> and everything else that is raised here
  derive from \<open>Exception\<close>. \<open>Exception m\<close> is an exception \<open>e\<close> with \<open>str(e) = m\<close>.
\<close>

datatype exn = Exception string | WebSocketDisconnect | CancelledError

fun isinstance_Exception :: "exn \<Rightarrow> bool" where
  "isinstance_Exception (Exception m) = True"
| "isinstance_Exception WebSocketDisconnect = True"
| "isinstance_Exception CancelledError = False"

text \<open>How a coroutine stands: it has returned, it has raised, or it is suspended at an await.\<close>

datatype outcome = Returned | Raised exn | Pending

subsection \<open>The metrics record and the sampling environment\<close>

text \<open>The named tuple of \<open>psutil.disk_io_counters()\<close>, with the two fields the module reads.\<close>

record sdiskio =
  read_bytes :: int
  write_bytes :: int

text \<open>
  What psutil and the clock answer during one call of \<open>get_metrics\<close>. \<open>Inl m\<close> is a call
  that raises an exception with message \<open>m\<close>; \<open>disk_io_counters\<close> may also return
  \<open>None\<close> (a host without disks).
\<close>

record psutil_reading =
  cpu_percent :: "string + real"
  virtual_memory_percent :: "string + real"
  disk_usage_percent :: "string + real"
  disk_io_counters :: "string + sdiskio option"
  now_isoformat :: string

text \<open>The dictionary that \<open>get_metrics\<close> returns; the key \<open>error\<close> is optional.\<close>

record metrics =
  cpu :: real
  memory :: real
  disk :: real
  disk_read :: real
  disk_write :: real
  error :: "string option"
  timestamp :: string

text \<open>\<open>json.dumps\<close> is library code: a text frame is represented by the record it serialises.\<close>

datatype frame = Json metrics

definition json_dumps :: "metrics \<Rightarrow> frame" where
  "json_dumps m = Json m"

text \<open>
  The float arithmetic of the interpreter, as \<open>get_metrics\<close> uses it:
  \<^item> \<open>int_to_float n\<close>: the conversion of an integer operand of \<open>/\<close> to a float;
    \<open>Inl m\<close> when it raises (OverflowError, for an integer beyond the float range);
  \<^item> \<open>float_div a b\<close>: the quotient of two floats, for a divisor other than zero;
  \<^item> \<open>round2 x\<close>: \<open>round(x, 2)\<close>.
\<close>

record float_ops =
  int_to_float :: "int \<Rightarrow> string + real"
  float_div :: "real \<Rightarrow> real \<Rightarrow> real"
  round2 :: "real \<Rightarrow> real"

text \<open>
  \<open>n / d\<close> for an integer \<open>n\<close> and a float \<open>d\<close>: the integer is converted, then a
  zero divisor raises ZeroDivisionError, then the floats are divided.
\<close>

definition truediv :: "float_ops \<Rightarrow> int \<Rightarrow> real \<Rightarrow> string + real" where
  "truediv fl n d =
     (case int_to_float fl n of
        Inl m \<Rightarrow> Inl m
      | Inr x \<Rightarrow> if d = 0 then Inl ''float division by zero'' else Inr (float_div fl x d))"

subsection \<open>Connections, the registry and the global state\<close>

text \<open>A \<open>WebSocket\<close> object is known by its identity.\<close>

type_synonym ws = nat

text \<open>
  \<open>clients\<close> is a Python set. It is modelled by the list of its members, without
  duplicates, in the order \<open>list(clients)\<close> yields them. That order follows the hash
  table: a removal leaves the other members where they are, an insertion puts the new
  member anywhere and may move the others (when the table is resized). So \<open>clients.add\<close>
  takes the listing of the set after it as an input: \<open>relist order xs\<close> lists the
  members of \<open>xs\<close> as \<open>order\<close> has them, and after them those that \<open>order\<close> leaves
  out, as \<open>xs\<close> has them.
\<close>

definition relist :: "ws list \<Rightarrow> ws list \<Rightarrow> ws list" where
  "relist order xs =
     filter (\<lambda>x. x \<in> set xs) (remdups order) @ filter (\<lambda>x. x \<notin> set order) xs"

definition add_client :: "ws list \<Rightarrow> ws \<Rightarrow> ws list \<Rightarrow> ws list" where
  "add_client order w cs = (if w \<in> set cs then cs else relist order (cs @ [w]))"

definition discard :: "ws \<Rightarrow> ws list \<Rightarrow> ws list" where
  "discard w cs = removeAll w cs"

text \<open>
  What connection handlers do to the registry while another coroutine is suspended:
  \<open>clients.add\<close> of a handler that has just accepted (with the listing of the set
  after it), \<open>clients.discard\<close> of a handler that is leaving.
\<close>

datatype reg_event = Added ws "ws list" | Discarded ws

fun handlers_run :: "reg_event list \<Rightarrow> ws list \<Rightarrow> ws list" where
  "handlers_run [] cs = cs"
| "handlers_run (Added w order # evs) cs = handlers_run evs (add_client order w cs)"
| "handlers_run (Discarded w # evs) cs = handlers_run evs (discard w cs)"

text \<open>The calls the program makes on its collaborators, in the order it makes them.\<close>

datatype action = Sample | SendText ws frame | Close ws

fun send_targets :: "action list \<Rightarrow> ws list" where
  "send_targets [] = []"
| "send_targets (SendText w m # as) = w # send_targets as"
| "send_targets (a # as) = send_targets as"

fun sent_frames :: "action list \<Rightarrow> frame list" where
  "sent_frames [] = []"
| "sent_frames (SendText w m # as) = m # sent_frames as"
| "sent_frames (a # as) = sent_frames as"

fun close_targets :: "action list \<Rightarrow> ws list" where
  "close_targets [] = []"
| "close_targets (Close w # as) = w # close_targets as"
| "close_targets (a # as) = close_targets as"

fun samples :: "action list \<Rightarrow> nat" where
  "samples [] = 0"
| "samples (Sample # as) = Suc (samples as)"
| "samples (a # as) = samples as"

text \<open>
  The module's globals. \<open>broadcast_task\<close> is \<open>None\<close> or a task object, which is known
  by how its coroutine stands; \<open>Pending\<close> is a task suspended at one of the awaits inside the
  \<open>try\<close> of \<open>broadcast_metrics_loop\<close> (the event loop gives a created task its first step
  as soon as its creator awaits, and the server awaits between the startup and the shutdown
  hook). \<open>actions\<close> is not a variable of the program: it records the calls made so far.
\<close>

record server =
  clients :: "ws list"
  last_io_stats :: "sdiskio option"
  broadcast_task :: "outcome option"
  actions :: "action list"

subsection \<open>get_metrics\<close>

text \<open>
  Reading \<open>.read_bytes\<close> or \<open>.write_bytes\<close> of \<open>None\<close> raises AttributeError (the
  message is written here without its quotation marks).
\<close>

definition getattr_counters :: "sdiskio option \<Rightarrow> string + sdiskio" where
  "getattr_counters io =
     (case io of
        None \<Rightarrow> Inl ''NoneType object has no attribute read_bytes''
      | Some c \<Rightarrow> Inr c)"

text \<open>
  The body of the \<open>try\<close> (lines 65 to 85): \<open>Inl m\<close> when it raises, else the record and the
  new value of \<open>last_io_stats\<close>. Both divisions come before the assignment of line 76.
\<close>

definition get_metrics_try ::
  "float_ops \<Rightarrow> real \<Rightarrow> psutil_reading \<Rightarrow> sdiskio option
     \<Rightarrow> string + (metrics \<times> sdiskio option)" where
  "get_metrics_try fl UPDATE_INTERVAL r last_io =
     (case cpu_percent r of Inl m \<Rightarrow> Inl m | Inr cpu_v \<Rightarrow>
     (case virtual_memory_percent r of Inl m \<Rightarrow> Inl m | Inr memory_v \<Rightarrow>
     (case disk_usage_percent r of Inl m \<Rightarrow> Inl m | Inr disk_v \<Rightarrow>
     (case disk_io_counters r of Inl m \<Rightarrow> Inl m | Inr current_io_stats \<Rightarrow>
     (case getattr_counters current_io_stats of Inl m \<Rightarrow> Inl m | Inr cur \<Rightarrow>
     (case getattr_counters last_io of Inl m \<Rightarrow> Inl m | Inr prev \<Rightarrow>
        (let rd = read_bytes cur - read_bytes prev;
             wr = write_bytes cur - write_bytes prev
         in (case truediv fl rd UPDATE_INTERVAL of Inl m \<Rightarrow> Inl m | Inr read_speed \<Rightarrow>
            (case truediv fl wr UPDATE_INTERVAL of Inl m \<Rightarrow> Inl m | Inr write_speed \<Rightarrow>
               Inr (\<lparr>cpu = round2 fl cpu_v,
                      memory = round2 fl memory_v,
                      disk = round2 fl disk_v,
                      disk_read = round2 fl read_speed,
                      disk_write = round2 fl write_speed,
                      error = None,
                      timestamp = now_isoformat r\<rparr>,
                    current_io_stats))))))))))"

definition get_metrics ::
  "float_ops \<Rightarrow> real \<Rightarrow> psutil_reading \<Rightarrow> server \<Rightarrow> (exn + metrics) \<times> server" where
  "get_metrics fl UPDATE_INTERVAL r s =
     (let s1 = s\<lparr>actions := actions s @ [Sample]\<rparr>
      in case get_metrics_try fl UPDATE_INTERVAL r (last_io_stats s1) of
           Inr (m, io) \<Rightarrow> (Inr m, s1\<lparr>last_io_stats := io\<rparr>)
         | Inl e \<Rightarrow>
             (Inr \<lparr>cpu = 0, memory = 0, disk = 0, disk_read = 0, disk_write = 0,
                   error = Some e, timestamp = now_isoformat r\<rparr>,
              s1))"

subsection \<open>broadcast_metrics_loop\<close>

text \<open>
  The environment of one pass through the \<open>while\<close> body.
  \<^item> \<open>during_sleep\<close>, \<open>during_gather\<close>, \<open>during_close w\<close>: what handlers do to the registry
    while the loop is suspended in \<open>asyncio.sleep\<close>, in \<open>asyncio.gather\<close>, in
    \<open>w.close()\<close>;
  \<^item> \<open>sleep_cancelled\<close>: the task is cancelled during the sleep;
  \<^item> \<open>gather_cancelled = Some started\<close>: the task is cancelled during the gather, when the
    sends to the members satisfying \<open>started\<close> had begun;
  \<^item> \<open>send_result w\<close>: \<open>None\<close> when \<open>w.send_text\<close> succeeds, else what it raises;
  \<^item> \<open>close_result w\<close>: the same for \<open>w.close()\<close>; \<open>Some CancelledError\<close> is a
    cancellation of the task delivered at that await.
\<close>

record tick_env =
  sleep_cancelled :: bool
  during_sleep :: "reg_event list"
  reading :: psutil_reading
  send_result :: "ws \<Rightarrow> exn option"
  gather_cancelled :: "(ws \<Rightarrow> bool) option"
  during_gather :: "reg_event list"
  close_result :: "ws \<Rightarrow> exn option"
  during_close :: "ws \<Rightarrow> reg_event list"

definition safe_send :: "tick_env \<Rightarrow> ws \<Rightarrow> frame \<Rightarrow> server \<Rightarrow> exn option \<times> server" where
  "safe_send env w message s = (send_result env w, s\<lparr>actions := actions s @ [SendText w message]\<rparr>)"

text \<open>
  \<open>asyncio.gather(*send_coros, return_exceptions=True)\<close>: every coroutine runs, and the
  results come in the order of the coroutines, an exception being a result.
\<close>

fun gather :: "tick_env \<Rightarrow> frame \<Rightarrow> ws list \<Rightarrow> server \<Rightarrow> exn option list \<times> server" where
  "gather env message [] s = ([], s)"
| "gather env message (w # ws) s =
     (case safe_send env w message s of
        (res, s1) \<Rightarrow>
          (case gather env message ws s1 of
             (results, s2) \<Rightarrow> (res # results, s2)))"

text \<open>The test of line 110 on the result of the send to \<open>w\<close>.\<close>

definition send_failed :: "tick_env \<Rightarrow> ws \<Rightarrow> bool" where
  "send_failed env w =
     (case send_result env w of None \<Rightarrow> False | Some e \<Rightarrow> isinstance_Exception e)"

text \<open>
  Lines 109 to 115, over the pairs of \<open>zip(list(clients), results)\<close>. The result is the
  exception that leaves the \<open>for\<close> loop, if any.
\<close>

fun prune :: "tick_env \<Rightarrow> (ws \<times> exn option) list \<Rightarrow> server \<Rightarrow> exn option \<times> server" where
  "prune env [] s = (None, s)"
| "prune env ((w, res) # pairs) s =
     (case res of
        None \<Rightarrow> prune env pairs s
      | Some e \<Rightarrow>
          if isinstance_Exception e then
            (let s1 = s\<lparr>actions := actions s @ [Close w],
                       clients := handlers_run (during_close env w) (clients s)\<rparr>
             in case close_result env w of
                  None \<Rightarrow> prune env pairs (s1\<lparr>clients := discard w (clients s1)\<rparr>)
                | Some c \<Rightarrow>
                    if isinstance_Exception c
                    then prune env pairs (s1\<lparr>clients := discard w (clients s1)\<rparr>)
                    else (Some c, s1))
          else prune env pairs s)"

text \<open>One pass through the body of \<open>while True\<close> (lines 102 to 115).\<close>

definition iteration ::
  "float_ops \<Rightarrow> real \<Rightarrow> tick_env \<Rightarrow> server \<Rightarrow> exn option \<times> server" where
  "iteration fl UPDATE_INTERVAL env s =
     (let s1 = s\<lparr>clients := handlers_run (during_sleep env) (clients s)\<rparr>
      in if sleep_cancelled env then (Some CancelledError, s1)
         else if clients s1 = [] then (None, s1)
         else
           (case get_metrics fl UPDATE_INTERVAL (reading env) s1 of
              (Inl e, s2) \<Rightarrow> (Some e, s2)
            | (Inr metrics_v, s2) \<Rightarrow>
                (let message = json_dumps metrics_v;
                     snapshot = clients s2
                 in case gather_cancelled env of
                      Some started \<Rightarrow>
                        (case gather env message (filter started snapshot) s2 of
                           (results, s3) \<Rightarrow>
                             (Some CancelledError,
                              s3\<lparr>clients := handlers_run (during_gather env) (clients s3)\<rparr>))
                    | None \<Rightarrow>
                        (case gather env message snapshot s2 of
                           (results, s3) \<Rightarrow>
                             (let s4 = s3\<lparr>clients :=
                                            handlers_run (during_gather env) (clients s3)\<rparr>
                              in prune env (zip (clients s4) results) s4)))))"

text \<open>
  \<open>while True\<close> over the environments of the successive passes. The loop has no exit of
  its own: when the environments given are used up it is suspended in its next sleep.
\<close>

fun while_true ::
  "float_ops \<Rightarrow> real \<Rightarrow> tick_env list \<Rightarrow> server \<Rightarrow> outcome \<times> server" where
  "while_true fl UPDATE_INTERVAL [] s = (Pending, s)"
| "while_true fl UPDATE_INTERVAL (env # envs) s =
     (case iteration fl UPDATE_INTERVAL env s of
        (Some e, s1) \<Rightarrow> (Raised e, s1)
      | (None, s1) \<Rightarrow> while_true fl UPDATE_INTERVAL envs s1)"

text \<open>Lines 116 and 117: \<open>except asyncio.CancelledError: return\<close>.\<close>

definition loop_except :: "exn \<Rightarrow> outcome" where
  "loop_except e = (if e = CancelledError then Returned else Raised e)"


subsection \<open>websocket_endpoint\<close>

text \<open>
  One \<open>await websocket.receive_text()\<close>: what the other coroutines do to the registry
  meanwhile, and its result (\<open>None\<close> for a text frame, which is dropped).
\<close>

record recv_step =
  during_receive :: "reg_event list"
  receive_result :: "exn option"

text \<open>
  The environment of one handler: the result of \<open>accept\<close>, how the set lists its
  members once the connection is added, and the successive \<open>receive_text\<close>.
\<close>

record handler_env =
  accept_result :: "exn option"
  listing_after_add :: "ws list"
  receives :: "recv_step list"

fun receive_loop :: "recv_step list \<Rightarrow> server \<Rightarrow> outcome \<times> server" where
  "receive_loop [] s = (Pending, s)"
| "receive_loop (st # sts) s =
     (let s1 = s\<lparr>clients := handlers_run (during_receive st) (clients s)\<rparr>
      in case receive_result st of
           None \<Rightarrow> receive_loop sts s1
         | Some e \<Rightarrow> (Raised e, s1))"

text \<open>The \<open>finally\<close> clause, lines 174 and 175.\<close>

definition handler_finally :: "ws \<Rightarrow> server \<Rightarrow> server" where
  "handler_finally w s =
     (if w \<in> set (clients s) then s\<lparr>clients := discard w (clients s)\<rparr> else s)"

definition websocket_endpoint :: "handler_env \<Rightarrow> ws \<Rightarrow> server \<Rightarrow> outcome \<times> server" where
  "websocket_endpoint env websocket s =
     (case accept_result env of
        Some e \<Rightarrow> (Raised e, s)
      | None \<Rightarrow>
          (let s1 = s\<lparr>clients := add_client (listing_after_add env) websocket (clients s)\<rparr>
           in case receive_loop (receives env) s1 of
                (Pending, s2) \<Rightarrow> (Pending, s2)
              | (Returned, s2) \<Rightarrow> (Returned, handler_finally websocket s2)
              | (Raised e, s2) \<Rightarrow>
                  (if isinstance_Exception e then Returned else Raised e,
                   handler_finally websocket s2)))"

subsection \<open>on_shutdown\<close>

record shutdown_env =
  sd_close_result :: "ws \<Rightarrow> exn option"
  sd_during_close :: "ws \<Rightarrow> reg_event list"

text \<open>
  \<open>broadcast_task.cancel()\<close> on a task suspended inside the \<open>try\<close> of the loop throws
  \<open>CancelledError\<close> there, and the task ends as the loop's \<open>except\<close> clause decides; on a
  task that is done it does nothing.
\<close>

fun cancel_task :: "outcome \<Rightarrow> outcome" where
  "cancel_task Pending = loop_except CancelledError"
| "cancel_task t = t"

text \<open>Lines 151 to 155, over \<open>list(clients)\<close>.\<close>

fun close_all :: "shutdown_env \<Rightarrow> ws list \<Rightarrow> server \<Rightarrow> exn option \<times> server" where
  "close_all env [] s = (None, s)"
| "close_all env (w # ws) s =
     (let s1 = s\<lparr>actions := actions s @ [Close w],
                clients := handlers_run (sd_during_close env w) (clients s)\<rparr>
      in case sd_close_result env w of
           None \<Rightarrow> close_all env ws s1
         | Some e \<Rightarrow> if isinstance_Exception e then close_all env ws s1 else (Some e, s1))"

definition close_and_clear :: "shutdown_env \<Rightarrow> server \<Rightarrow> outcome \<times> server" where
  "close_and_clear env s =
     (case close_all env (clients s) s of
        (Some e, s1) \<Rightarrow> (Raised e, s1)
      | (None, s1) \<Rightarrow> (Returned, s1\<lparr>clients := []\<rparr>))"

definition on_shutdown :: "shutdown_env \<Rightarrow> server \<Rightarrow> outcome \<times> server" where
  "on_shutdown env s =
     (case broadcast_task s of
        None \<Rightarrow> close_and_clear env s
      | Some t \<Rightarrow>
          (let s1 = s\<lparr>broadcast_task := Some (cancel_task t)\<rparr>
           in case cancel_task t of
                Pending \<Rightarrow> (Pending, s1)
              | Returned \<Rightarrow> close_and_clear env s1
              | Raised e \<Rightarrow>
                  if isinstance_Exception e then close_and_clear env s1
                  else (Raised e, s1)))"

subsection \<open>Example runs\<close>

text \<open>
  A host with one disk, sampled every two seconds, and two subscribers. The float
  operations are given as the runs below need them: the integers converted are 4000,
  1000 and 0, their quotients by 2 are exact, and the values rounded (12.5, 40, 71.25,
  2000, 500, 0) are floats with at most two decimals, which \<open>round(x, 2)\<close> returns
  as they are.
\<close>

definition floats0 :: float_ops where
  "floats0 =
     \<lparr>int_to_float = (\<lambda>n. Inr (of_int n)),
      float_div = (\<lambda>a b. a / b),
      round2 = (\<lambda>x. x)\<rparr>"


definition reading0 :: psutil_reading where
  "reading0 =
     \<lparr>cpu_percent = Inr 12.5, virtual_memory_percent = Inr 40,
      disk_usage_percent = Inr 71.25,
      disk_io_counters = Inr (Some \<lparr>read_bytes = 5000, write_bytes = 9000\<rparr>),
      now_isoformat = ''2024-01-01T00:00:00''\<rparr>"

definition server0 :: server where
  "server0 =
     \<lparr>clients = [1, 2],
      last_io_stats = Some \<lparr>read_bytes = 1000, write_bytes = 8000\<rparr>,
      broadcast_task = Some Pending,
      actions = []\<rparr>"

definition metrics0 :: metrics where
  "metrics0 =
     \<lparr>cpu = 12.5, memory = 40, disk = 71.25, disk_read = 2000, disk_write = 500,
      error = None, timestamp = ''2024-01-01T00:00:00''\<rparr>"

text \<open>The same host when psutil finds no disk.\<close>

definition reading_nodisk :: psutil_reading where
  "reading_nodisk = reading0\<lparr>disk_io_counters := Inr None\<rparr>"

text \<open>
  Passes of the loop: one in which nothing fails, one in which the send to connection 1
  fails, one without a disk, and one in which the task is cancelled during the sleep.
\<close>

definition env_quiet :: tick_env where
  "env_quiet =
     \<lparr>sleep_cancelled = False, during_sleep = [], reading = reading0,
      send_result = (\<lambda>w. None), gather_cancelled = None, during_gather = [],
      close_result = (\<lambda>w. None), during_close = (\<lambda>w. [])\<rparr>"

definition env_fail1 :: tick_env where
  "env_fail1 =
     env_quiet\<lparr>send_result := (\<lambda>w. if w = 1 then Some (Exception ''broken pipe'') else None)\<rparr>"

definition env_nodisk :: tick_env where
  "env_nodisk = env_quiet\<lparr>reading := reading_nodisk\<rparr>"

definition env_cancel :: tick_env where
  "env_cancel = env_quiet\<lparr>sleep_cancelled := True\<rparr>"

text \<open>
  Two passes in which the handler of connection 1 leaves (\<open>clients.discard\<close>) while the
  loop is suspended in the gather: in the first the send to 1 had failed, in the second the
  send to 2.
\<close>

definition env_race_a :: tick_env where
  "env_race_a = env_fail1\<lparr>during_gather := [Discarded 1]\<rparr>"

definition env_race_b :: tick_env where
  "env_race_b =
     env_quiet\<lparr>send_result := (\<lambda>w. if w = 2 then Some (Exception ''broken pipe'') else None),
               during_gather := [Discarded 1]\<rparr>"

text \<open>
  A handler whose second \<open>receive_text\<close> raises a transport error, and one whose
  connection the broadcast loop has closed and discarded meanwhile.
\<close>

definition handler_reset :: handler_env where
  "handler_reset =
     \<lparr>accept_result = None,
      listing_after_add = [3, 1, 2],
      receives = [\<lparr>during_receive = [], receive_result = None\<rparr>,
                  \<lparr>during_receive = [],
                   receive_result = Some (Exception ''connection reset'')\<rparr>]\<rparr>"

definition handler_pruned :: handler_env where
  "handler_pruned =
     \<lparr>accept_result = None,
      listing_after_add = [],
      receives = [\<lparr>during_receive = [Discarded 3],
                   receive_result = Some WebSocketDisconnect\<rparr>]\<rparr>"

text \<open>A shutdown in which every \<open>close\<close> fails.\<close>

definition shutdown_failing :: shutdown_env where
  "shutdown_failing =
     \<lparr>sd_close_result = (\<lambda>w. Some (Exception ''already closed'')),
      sd_during_close = (\<lambda>w. [])\<rparr>"

section \<open>Properties\<close>

lemmas example_defs = floats0_def truediv_def env_quiet_def env_fail1_def env_nodisk_def env_cancel_def server0_def
  reading0_def reading_nodisk_def metrics0_def env_race_a_def env_race_b_def
  handler_reset_def handler_pruned_def shutdown_failing_def

subsection \<open>The registry\<close>

text \<open>Whatever listing the environment gives, the registry stays a set: \<open>add\<close> adds
  its member and no other, and no member is listed twice.\<close>

lemma set_relist: "set (relist order xs) = set xs"
  by (auto simp: relist_def)

lemma distinct_relist: "distinct xs \<Longrightarrow> distinct (relist order xs)"
  by (auto simp: relist_def)

lemma set_add_client: "set (add_client order w cs) = insert w (set cs)"
  by (auto simp: add_client_def set_relist)

lemma distinct_add_client: "distinct cs \<Longrightarrow> distinct (add_client order w cs)"
  by (simp add: add_client_def distinct_relist)

lemma set_discard: "set (discard w cs) = set cs - {w}"
  by (auto simp: discard_def)

lemma distinct_discard: "distinct cs \<Longrightarrow> distinct (discard w cs)"
  by (simp add: discard_def distinct_removeAll)

lemma distinct_handlers_run: "distinct cs \<Longrightarrow> distinct (handlers_run evs cs)"
  by (induction evs cs rule: handlers_run.induct)
     (simp_all add: distinct_add_client distinct_discard)

subsection \<open>Projections of the recorded calls\<close>

lemma send_targets_append: "send_targets (xs @ ys) = send_targets xs @ send_targets ys"
  by (induction xs rule: send_targets.induct) simp_all

lemma sent_frames_append: "sent_frames (xs @ ys) = sent_frames xs @ sent_frames ys"
  by (induction xs rule: sent_frames.induct) simp_all

lemma close_targets_append: "close_targets (xs @ ys) = close_targets xs @ close_targets ys"
  by (induction xs rule: close_targets.induct) simp_all

lemma samples_append: "samples (xs @ ys) = samples xs + samples ys"
  by (induction xs rule: samples.induct) simp_all

lemma send_targets_map_SendText: "send_targets (map (\<lambda>w. SendText w message) ws) = ws"
  by (induction ws) simp_all

lemma sent_frames_map_SendText:
  "sent_frames (map (\<lambda>w. SendText w message) ws) = map (\<lambda>w. message) ws"
  by (induction ws) simp_all

lemma samples_map_SendText: "samples (map (\<lambda>w. SendText w message) ws) = 0"
  by (induction ws) simp_all

lemma close_targets_map_SendText: "close_targets (map (\<lambda>w. SendText w message) ws) = []"
  by (induction ws) simp_all

lemma send_targets_map_Close: "send_targets (map Close ws) = []"
  by (induction ws) simp_all

lemma close_targets_map_Close: "close_targets (map Close ws) = ws"
  by (induction ws) simp_all

subsection \<open>Sampling\<close>

lemma truediv_Inr:
  "truediv fl n d = Inr q \<longleftrightarrow>
     d \<noteq> 0 \<and> (\<exists>x. int_to_float fl n = Inr x \<and> q = float_div fl x d)"
  by (auto simp: truediv_def split: sum.splits)

lemma get_metrics_try_Inr:
  assumes "get_metrics_try fl ui r last_io = Inr (m, io)"
  shows "\<exists>cur prev rd wr. disk_io_counters r = Inr (Some cur) \<and> last_io = Some prev
      \<and> io = Some cur \<and> ui \<noteq> 0
      \<and> int_to_float fl (read_bytes cur - read_bytes prev) = Inr rd
      \<and> int_to_float fl (write_bytes cur - write_bytes prev) = Inr wr
      \<and> disk_read m = round2 fl (float_div fl rd ui)
      \<and> disk_write m = round2 fl (float_div fl wr ui)
      \<and> error m = None"
  using assms
  by (auto simp: get_metrics_try_def getattr_counters_def Let_def truediv_Inr
           split: sum.splits option.splits)

lemma get_metrics_try_clock:
  "get_metrics_try fl ui (r\<lparr>now_isoformat := t\<rparr>) last_io =
     (case get_metrics_try fl ui r last_io of
        Inl e \<Rightarrow> Inl e
      | Inr (m, io) \<Rightarrow> Inr (m\<lparr>timestamp := t\<rparr>, io))"
  by (simp add: get_metrics_try_def Let_def split: sum.splits)

lemma get_metrics_cases:
  "get_metrics fl ui r s =
     (case get_metrics_try fl ui r (last_io_stats s) of
        Inr (m, io) \<Rightarrow> (Inr m, s\<lparr>actions := actions s @ [Sample], last_io_stats := io\<rparr>)
      | Inl e \<Rightarrow> (Inr \<lparr>cpu = 0, memory = 0, disk = 0, disk_read = 0, disk_write = 0,
                      error = Some e, timestamp = now_isoformat r\<rparr>,
                 s\<lparr>actions := actions s @ [Sample]\<rparr>))"
  by (simp add: get_metrics_def Let_def split: sum.splits prod.splits)

text \<open>
  C8. On a successful sample (the record has no \<open>error\<close>), \<open>disk_read\<close> and
  \<open>disk_write\<close> are \<open>round(q, 2)\<close> for \<open>q\<close> the float quotient of the difference
  between the counter just read and the stored one by \<open>UPDATE_INTERVAL\<close>, and the
  counters just read become the stored ones. The clock has no part in the rates: another
  reading of it changes the timestamp of the record and nothing else.
\<close>

theorem disk_rates_use_nominal_interval:
  assumes "fst (get_metrics fl UPDATE_INTERVAL r s) = Inr m" and "error m = None"
  shows "\<exists>cur prev rd wr.
           disk_io_counters r = Inr (Some cur) \<and> last_io_stats s = Some prev
         \<and> UPDATE_INTERVAL \<noteq> 0
         \<and> int_to_float fl (read_bytes cur - read_bytes prev) = Inr rd
         \<and> int_to_float fl (write_bytes cur - write_bytes prev) = Inr wr
         \<and> disk_read m = round2 fl (float_div fl rd UPDATE_INTERVAL)
         \<and> disk_write m = round2 fl (float_div fl wr UPDATE_INTERVAL)
         \<and> last_io_stats (snd (get_metrics fl UPDATE_INTERVAL r s)) = Some cur
         \<and> (\<forall>t. fst (get_metrics fl UPDATE_INTERVAL (r\<lparr>now_isoformat := t\<rparr>) s)
                  = Inr (m\<lparr>timestamp := t\<rparr>))"
proof (cases "get_metrics_try fl UPDATE_INTERVAL r (last_io_stats s)")
  case (Inl e)
  with assms have False by (auto simp: get_metrics_cases)
  then show ?thesis ..
next
  case (Inr p)
  obtain m' io where p: "p = (m', io)" by (cases p)
  from Inr p assms have mm: "m' = m" by (simp add: get_metrics_cases)
  from get_metrics_try_Inr[OF Inr[unfolded p mm]]
  obtain cur prev rd wr where h: "disk_io_counters r = Inr (Some cur)"
      "last_io_stats s = Some prev" "io = Some cur" "UPDATE_INTERVAL \<noteq> 0"
      "int_to_float fl (read_bytes cur - read_bytes prev) = Inr rd"
      "int_to_float fl (write_bytes cur - write_bytes prev) = Inr wr"
      "disk_read m = round2 fl (float_div fl rd UPDATE_INTERVAL)"
      "disk_write m = round2 fl (float_div fl wr UPDATE_INTERVAL)"
    by blast
  have st: "last_io_stats (snd (get_metrics fl UPDATE_INTERVAL r s)) = Some cur"
    using Inr p h(3) by (simp add: get_metrics_cases)
  have ck: "\<forall>t. fst (get_metrics fl UPDATE_INTERVAL (r\<lparr>now_isoformat := t\<rparr>) s)
                  = Inr (m\<lparr>timestamp := t\<rparr>)"
    using Inr p mm by (simp add: get_metrics_cases get_metrics_try_clock)
  show ?thesis
    using h(1,2,4,5,6,7,8) st ck by blast
qed

theorem disk_rates_witness:
  "fst (get_metrics floats0 2 reading0 server0) = Inr metrics0 \<and> error metrics0 = None
   \<and> disk_read metrics0 = round2 floats0 (float_div floats0 (of_int (5000 - 1000)) 2)
   \<and> disk_write metrics0 = round2 floats0 (float_div floats0 (of_int (9000 - 8000)) 2)
   \<and> last_io_stats (snd (get_metrics floats0 2 reading0 server0))
       = Some \<lparr>read_bytes = 5000, write_bytes = 9000\<rparr>"
proof -
  have h1: "fst (get_metrics floats0 2 reading0 server0) = Inr metrics0"
    by (simp add: get_metrics_cases get_metrics_try_def getattr_counters_def reading0_def
          server0_def metrics0_def floats0_def truediv_def Let_def)
  have h2: "error metrics0 = None"
    by (simp add: metrics0_def)
  from disk_rates_use_nominal_interval[OF h1 h2]
  obtain cur prev rd wr where c: "disk_io_counters reading0 = Inr (Some cur)"
      "last_io_stats server0 = Some prev"
      "int_to_float floats0 (read_bytes cur - read_bytes prev) = Inr rd"
      "int_to_float floats0 (write_bytes cur - write_bytes prev) = Inr wr"
      "disk_read metrics0 = round2 floats0 (float_div floats0 rd 2)"
      "disk_write metrics0 = round2 floats0 (float_div floats0 wr 2)"
      "last_io_stats (snd (get_metrics floats0 2 reading0 server0)) = Some cur"
    by blast
  from c(1) have cur: "cur = \<lparr>read_bytes = 5000, write_bytes = 9000\<rparr>"
    by (simp add: reading0_def)
  from c(2) have prev: "prev = \<lparr>read_bytes = 1000, write_bytes = 8000\<rparr>"
    by (simp add: server0_def)
  from c(3) have rd: "rd = of_int (5000 - 1000)"
    unfolding cur prev by (simp add: floats0_def)
  from c(4) have wr: "wr = of_int (9000 - 8000)"
    unfolding cur prev by (simp add: floats0_def)
  show ?thesis
    using h1 h2 c(5,6,7) unfolding cur rd wr by simp
qed

text \<open>
  C9. When \<open>get_metrics\<close> returns a record with an \<open>error\<close>, \<open>last_io_stats\<close> is what
  it was before the call; when it returns a record without one, \<open>last_io_stats\<close> is what
  \<open>psutil.disk_io_counters()\<close> has just returned.
\<close>

theorem failed_sample_keeps_last_io_stats:
  assumes "fst (get_metrics fl UPDATE_INTERVAL r s) = Inr m"
  shows "(error m \<noteq> None \<longrightarrow>
            last_io_stats (snd (get_metrics fl UPDATE_INTERVAL r s)) = last_io_stats s)
       \<and> (error m = None \<longrightarrow>
            disk_io_counters r = Inr (last_io_stats (snd (get_metrics fl UPDATE_INTERVAL r s))))"
proof (cases "get_metrics_try fl UPDATE_INTERVAL r (last_io_stats s)")
  case (Inl e)
  with assms show ?thesis by (auto simp: get_metrics_cases)
next
  case (Inr p)
  obtain m' io where p: "p = (m', io)" by (cases p)
  from get_metrics_try_Inr[OF Inr[unfolded p]] Inr p assms
  show ?thesis by (auto simp: get_metrics_cases)
qed

theorem failed_sample_keeps_last_io_stats_witness:
  "(\<exists>m. fst (get_metrics floats0 2 reading_nodisk server0) = Inr m \<and> error m \<noteq> None)
   \<and> last_io_stats (snd (get_metrics floats0 2 reading_nodisk server0))
       = Some \<lparr>read_bytes = 1000, write_bytes = 8000\<rparr>
   \<and> fst (get_metrics floats0 2 reading0 server0) = Inr metrics0 \<and> error metrics0 = None
   \<and> last_io_stats (snd (get_metrics floats0 2 reading0 server0))
       = Some \<lparr>read_bytes = 5000, write_bytes = 9000\<rparr>"
proof -
  define m where
    "m = \<lparr>cpu = 0, memory = 0, disk = 0, disk_read = 0, disk_write = 0,
          error = Some ''NoneType object has no attribute read_bytes'',
          timestamp = ''2024-01-01T00:00:00''\<rparr>"
  have h1: "fst (get_metrics floats0 2 reading_nodisk server0) = Inr m"
    by (simp add: get_metrics_cases get_metrics_try_def getattr_counters_def reading_nodisk_def
          reading0_def server0_def m_def)
  have e1: "error m \<noteq> None"
    by (simp add: m_def)
  have h2: "fst (get_metrics floats0 2 reading0 server0) = Inr metrics0"
    by (simp add: get_metrics_cases get_metrics_try_def getattr_counters_def reading0_def
          server0_def metrics0_def floats0_def truediv_def Let_def)
  have e2: "error metrics0 = None"
    by (simp add: metrics0_def)
  have a: "last_io_stats (snd (get_metrics floats0 2 reading_nodisk server0)) = last_io_stats server0"
    using failed_sample_keeps_last_io_stats[OF h1] e1 by blast
  have b: "disk_io_counters reading0 = Inr (last_io_stats (snd (get_metrics floats0 2 reading0 server0)))"
    using failed_sample_keeps_last_io_stats[OF h2] e2 by blast
  from b have b': "last_io_stats (snd (get_metrics floats0 2 reading0 server0))
       = Some \<lparr>read_bytes = 5000, write_bytes = 9000\<rparr>"
    by (simp add: reading0_def)
  from a have a': "last_io_stats (snd (get_metrics floats0 2 reading_nodisk server0))
       = Some \<lparr>read_bytes = 1000, write_bytes = 8000\<rparr>"
    by (simp add: server0_def)
  show ?thesis
    using h1 e1 h2 e2 a' b' by blast
qed

subsection \<open>The fan-out and the prune\<close>

lemma gather_eq:
  "gather env message ws s =
     (map (send_result env) ws, s\<lparr>actions := actions s @ map (\<lambda>w. SendText w message) ws\<rparr>)"
  by (induction ws arbitrary: s) (simp_all add: safe_send_def)

lemma prune_send_targets:
  "send_targets (actions (snd (prune env pairs s))) = send_targets (actions s)"
  by (induction env pairs s rule: prune.induct)
     (auto simp: Let_def send_targets_append split: option.splits)

lemma prune_sent_frames:
  "sent_frames (actions (snd (prune env pairs s))) = sent_frames (actions s)"
  by (induction env pairs s rule: prune.induct)
     (auto simp: Let_def sent_frames_append split: option.splits)

lemma prune_samples:
  "samples (actions (snd (prune env pairs s))) = samples (actions s)"
  by (induction env pairs s rule: prune.induct)
     (auto simp: Let_def samples_append split: option.splits)

lemma prune_last_io_stats:
  "last_io_stats (snd (prune env pairs s)) = last_io_stats s"
  by (induction env pairs s rule: prune.induct)
     (auto simp: Let_def split: option.splits)

lemma not_Exception_iff: "\<not> isinstance_Exception c \<longleftrightarrow> c = CancelledError"
  by (cases c) simp_all

lemma prune_raises:
  "fst (prune env pairs s) = Some e \<Longrightarrow>
     e = CancelledError \<and> (\<exists>w. close_result env w = Some CancelledError)"
proof (induction env pairs s rule: prune.induct)
  case (1 env s)
  then show ?case by simp
next
  case (2 env w res pairs s)
  then show ?case
    by (auto simp: Let_def not_Exception_iff split: option.splits if_splits)
qed

subsection \<open>The broadcast loop\<close>

lemma iteration_uncancelled:
  assumes "\<not> sleep_cancelled env" and "gather_cancelled env = None"
    and "cs = handlers_run (during_sleep env) (clients s)" and "cs \<noteq> []"
  shows "\<exists>m. fst (get_metrics fl ui (reading env) (s\<lparr>clients := cs\<rparr>)) = Inr m
      \<and> send_targets (actions (snd (iteration fl ui env s))) = send_targets (actions s) @ cs
      \<and> sent_frames (actions (snd (iteration fl ui env s)))
          = sent_frames (actions s) @ map (\<lambda>w. json_dumps m) cs
      \<and> samples (actions (snd (iteration fl ui env s))) = Suc (samples (actions s))"
  using assms
  by (auto simp: iteration_def get_metrics_cases gather_eq Let_def prune_send_targets
        prune_sent_frames prune_samples send_targets_append sent_frames_append samples_append
        send_targets_map_SendText sent_frames_map_SendText samples_map_SendText
      split: sum.splits prod.splits)

lemma iteration_raises:
  assumes "fst (iteration fl ui env s) = Some e"
  shows "e = CancelledError
       \<and> (sleep_cancelled env \<or> gather_cancelled env \<noteq> None
          \<or> (\<exists>w. close_result env w = Some CancelledError))"
  using assms
  by (auto simp: iteration_def get_metrics_cases gather_eq Let_def
      split: sum.splits prod.splits if_splits option.splits dest: prune_raises)


lemma while_true_Cons:
  "while_true fl ui (env # envs) s =
     (case fst (iteration fl ui env s) of
        Some e \<Rightarrow> (Raised e, snd (iteration fl ui env s))
      | None \<Rightarrow> while_true fl ui envs (snd (iteration fl ui env s)))"
  by (cases "iteration fl ui env s") (simp split: option.splits)







text \<open>
  C7. When the registry is empty once the sleep is over, the pass ends there:
  \<open>get_metrics\<close> is not called, the sampling state is untouched, and the loop goes to
  its next pass.
\<close>

theorem empty_registry_skips_sampling:
  assumes "\<not> sleep_cancelled env" and "handlers_run (during_sleep env) (clients s) = []"
  shows "iteration fl UPDATE_INTERVAL env s = (None, s\<lparr>clients := []\<rparr>)
       \<and> samples (actions (snd (iteration fl UPDATE_INTERVAL env s))) = samples (actions s)
       \<and> last_io_stats (snd (iteration fl UPDATE_INTERVAL env s)) = last_io_stats s
       \<and> while_true fl UPDATE_INTERVAL (env # envs) s
           = while_true fl UPDATE_INTERVAL envs (s\<lparr>clients := []\<rparr>)"
  using assms by (simp add: iteration_def Let_def)

theorem empty_registry_skips_sampling_witness:
  "\<not> sleep_cancelled env_quiet
   \<and> handlers_run (during_sleep env_quiet) (clients (server0\<lparr>clients := []\<rparr>)) = []
   \<and> iteration floats0 2 env_quiet (server0\<lparr>clients := []\<rparr>) = (None, server0\<lparr>clients := []\<rparr>)
   \<and> samples (actions (snd (iteration floats0 2 env_quiet (server0\<lparr>clients := []\<rparr>)))) = 0"
proof -
  have a: "\<not> sleep_cancelled env_quiet"
    by (simp add: example_defs)
  have b: "handlers_run (during_sleep env_quiet) (clients (server0\<lparr>clients := []\<rparr>)) = []"
    by (simp add: example_defs)
  have c: "samples (actions (server0\<lparr>clients := []\<rparr>)) = 0"
    by (simp add: example_defs)
  show ?thesis
    using empty_registry_skips_sampling[OF a b, of floats0 2 "[]"] a b c by simp
qed

text \<open>
  C6. \<open>get_metrics\<close> always returns a record. When the body of its \<open>try\<close> raises, the
  record has zero in the five numeric fields, the message of the exception under \<open>error\<close>,
  and a timestamp; otherwise it has no \<open>error\<close>. A pass of the loop whose sample fails
  sends that degraded record to every member of the snapshot and does not raise.
\<close>

theorem get_metrics_never_raises:
  "(\<exists>m. fst (get_metrics fl UPDATE_INTERVAL r s) = Inr m
       \<and> (case get_metrics_try fl UPDATE_INTERVAL r (last_io_stats s) of
             Inl e \<Rightarrow> m = \<lparr>cpu = 0, memory = 0, disk = 0, disk_read = 0, disk_write = 0,
                          error = Some e, timestamp = now_isoformat r\<rparr>
           | Inr (m', io) \<Rightarrow> m = m' \<and> error m = None))
   \<and> (\<not> sleep_cancelled env \<and> gather_cancelled env = None
        \<and> handlers_run (during_sleep env) (clients st) \<noteq> []
        \<and> get_metrics_try fl UPDATE_INTERVAL (reading env) (last_io_stats st) = Inl e \<longrightarrow>
        sent_frames (actions (snd (iteration fl UPDATE_INTERVAL env st)))
          = sent_frames (actions st)
            @ map (\<lambda>w. json_dumps \<lparr>cpu = 0, memory = 0, disk = 0, disk_read = 0, disk_write = 0,
                                    error = Some e, timestamp = now_isoformat (reading env)\<rparr>)
                (handlers_run (during_sleep env) (clients st))
        \<and> fst (iteration fl UPDATE_INTERVAL env st) \<noteq> Some (Exception e))"
proof (intro conjI impI)
  show "\<exists>m. fst (get_metrics fl UPDATE_INTERVAL r s) = Inr m
       \<and> (case get_metrics_try fl UPDATE_INTERVAL r (last_io_stats s) of
             Inl e \<Rightarrow> m = \<lparr>cpu = 0, memory = 0, disk = 0, disk_read = 0, disk_write = 0,
                          error = Some e, timestamp = now_isoformat r\<rparr>
           | Inr (m', io) \<Rightarrow> m = m' \<and> error m = None)"
  proof (cases "get_metrics_try fl UPDATE_INTERVAL r (last_io_stats s)")
    case (Inl e)
    then show ?thesis by (simp add: get_metrics_cases)
  next
    case (Inr p)
    obtain m' io where p: "p = (m', io)" by (cases p)
    from get_metrics_try_Inr[OF Inr[unfolded p]] Inr p
    show ?thesis by (auto simp: get_metrics_cases)
  qed
next
  assume a: "\<not> sleep_cancelled env \<and> gather_cancelled env = None
        \<and> handlers_run (during_sleep env) (clients st) \<noteq> []
        \<and> get_metrics_try fl UPDATE_INTERVAL (reading env) (last_io_stats st) = Inl e"
  define cs where "cs = handlers_run (during_sleep env) (clients st)"
  from a iteration_uncancelled[of env cs st fl UPDATE_INTERVAL]
  obtain m where m: "fst (get_metrics fl UPDATE_INTERVAL (reading env) (st\<lparr>clients := cs\<rparr>)) = Inr m"
      "sent_frames (actions (snd (iteration fl UPDATE_INTERVAL env st)))
          = sent_frames (actions st) @ map (\<lambda>w. json_dumps m) cs"
    unfolding cs_def by blast
  from m(1) a have "m = \<lparr>cpu = 0, memory = 0, disk = 0, disk_read = 0, disk_write = 0,
                          error = Some e, timestamp = now_isoformat (reading env)\<rparr>"
    by (simp add: get_metrics_cases)
  with m(2) show "sent_frames (actions (snd (iteration fl UPDATE_INTERVAL env st)))
          = sent_frames (actions st)
            @ map (\<lambda>w. json_dumps \<lparr>cpu = 0, memory = 0, disk = 0, disk_read = 0, disk_write = 0,
                                    error = Some e, timestamp = now_isoformat (reading env)\<rparr>)
                (handlers_run (during_sleep env) (clients st))"
    unfolding cs_def by simp
next
  show "fst (iteration fl UPDATE_INTERVAL env st) \<noteq> Some (Exception e)"
    using iteration_raises[of fl UPDATE_INTERVAL env st "Exception e"] by auto
qed

theorem get_metrics_never_raises_witness:
  "fst (get_metrics floats0 2 reading_nodisk server0)
     = Inr \<lparr>cpu = 0, memory = 0, disk = 0, disk_read = 0, disk_write = 0,
            error = Some ''NoneType object has no attribute read_bytes'',
            timestamp = ''2024-01-01T00:00:00''\<rparr>
   \<and> sent_frames (actions (snd (iteration floats0 2 env_nodisk server0)))
     = [json_dumps \<lparr>cpu = 0, memory = 0, disk = 0, disk_read = 0, disk_write = 0,
            error = Some ''NoneType object has no attribute read_bytes'',
            timestamp = ''2024-01-01T00:00:00''\<rparr>,
        json_dumps \<lparr>cpu = 0, memory = 0, disk = 0, disk_read = 0, disk_write = 0,
            error = Some ''NoneType object has no attribute read_bytes'',
            timestamp = ''2024-01-01T00:00:00''\<rparr>]"
proof -
  have f: "get_metrics_try floats0 2 reading_nodisk (last_io_stats server0)
             = Inl ''NoneType object has no attribute read_bytes''"
    by (simp add: get_metrics_try_def getattr_counters_def reading_nodisk_def reading0_def)
  have h: "\<not> sleep_cancelled env_nodisk \<and> gather_cancelled env_nodisk = None
        \<and> handlers_run (during_sleep env_nodisk) (clients server0) \<noteq> []
        \<and> get_metrics_try floats0 2 (reading env_nodisk) (last_io_stats server0)
             = Inl ''NoneType object has no attribute read_bytes''"
    using f by (simp add: env_nodisk_def env_quiet_def server0_def)
  note T = get_metrics_never_raises[of floats0 2 reading_nodisk server0 env_nodisk server0
              "''NoneType object has no attribute read_bytes''"]
  from T obtain m where m: "fst (get_metrics floats0 2 reading_nodisk server0) = Inr m"
     "case get_metrics_try floats0 2 reading_nodisk (last_io_stats server0) of
             Inl e \<Rightarrow> m = \<lparr>cpu = 0, memory = 0, disk = 0, disk_read = 0, disk_write = 0,
                          error = Some e, timestamp = now_isoformat reading_nodisk\<rparr>
           | Inr (m', io) \<Rightarrow> m = m' \<and> error m = None"
    by blast
  from m(2) have m': "m = \<lparr>cpu = 0, memory = 0, disk = 0, disk_read = 0, disk_write = 0,
            error = Some ''NoneType object has no attribute read_bytes'',
            timestamp = ''2024-01-01T00:00:00''\<rparr>"
    unfolding f by (simp add: reading_nodisk_def reading0_def)
  from T h have s: "sent_frames (actions (snd (iteration floats0 2 env_nodisk server0)))
          = sent_frames (actions server0)
            @ map (\<lambda>w. json_dumps \<lparr>cpu = 0, memory = 0, disk = 0, disk_read = 0, disk_write = 0,
                      error = Some ''NoneType object has no attribute read_bytes'',
                      timestamp = now_isoformat (reading env_nodisk)\<rparr>)
                (handlers_run (during_sleep env_nodisk) (clients server0))"
    by blast
  have s': "sent_frames (actions server0)
            @ map (\<lambda>w. json_dumps \<lparr>cpu = 0, memory = 0, disk = 0, disk_read = 0, disk_write = 0,
                      error = Some ''NoneType object has no attribute read_bytes'',
                      timestamp = now_isoformat (reading env_nodisk)\<rparr>)
                (handlers_run (during_sleep env_nodisk) (clients server0))
     = [json_dumps \<lparr>cpu = 0, memory = 0, disk = 0, disk_read = 0, disk_write = 0,
            error = Some ''NoneType object has no attribute read_bytes'',
            timestamp = ''2024-01-01T00:00:00''\<rparr>,
        json_dumps \<lparr>cpu = 0, memory = 0, disk = 0, disk_read = 0, disk_write = 0,
            error = Some ''NoneType object has no attribute read_bytes'',
            timestamp = ''2024-01-01T00:00:00''\<rparr>]"
    by (simp add: example_defs)
  from m(1) m' s s' show ?thesis by simp
qed

subsection \<open>The connection handler\<close>

lemma discard_absent: "w \<notin> set cs \<Longrightarrow> discard w cs = cs"
  by (simp add: discard_def)

lemma discard_removes: "w \<notin> set (discard w cs)"
  by (simp add: discard_def)

lemma receive_loop_actions:
  "actions (snd (receive_loop sts s)) = actions s"
  by (induction sts arbitrary: s) (auto simp: Let_def split: option.splits)

lemma handler_finally_removes: "w \<notin> set (clients (handler_finally w s))"
  by (simp add: handler_finally_def discard_def)

lemma handler_finally_clients: "clients (handler_finally w s) = discard w (clients s)"
  by (simp add: handler_finally_def discard_def)

lemma handler_finally_actions: "actions (handler_finally w s) = actions s"
  by (simp add: handler_finally_def)

lemma handler_finally_again: "handler_finally w (handler_finally w s) = handler_finally w s"
  by (simp add: handler_finally_def discard_def)

text \<open>
  C4, as amended. When the receive loop of a handler exits, by a peer close, by a transport
  error, or because the broadcast loop has closed and discarded the connection, the handler
  leaves the registry without its connection and with every other member untouched; an
  exception of class \<open>Exception\<close> is swallowed and the handler returns; the handler makes
  no call on the connection (in particular it does not close it); and removing the
  connection once more, by the handler's \<open>finally\<close> or by \<open>clients.discard\<close>, changes
  nothing.
\<close>

theorem handler_exit_removes_connection:
  assumes "accept_result env = None"
    and "receive_loop (receives env) (s\<lparr>clients := add_client (listing_after_add env) w (clients s)\<rparr>) = (Raised e, s2)"
  shows "w \<notin> set (clients (snd (websocket_endpoint env w s)))
       \<and> clients (snd (websocket_endpoint env w s)) = discard w (clients s2)
       \<and> (isinstance_Exception e \<longrightarrow> fst (websocket_endpoint env w s) = Returned)
       \<and> actions (snd (websocket_endpoint env w s)) = actions s
       \<and> handler_finally w (snd (websocket_endpoint env w s)) = snd (websocket_endpoint env w s)
       \<and> discard w (clients (snd (websocket_endpoint env w s)))
           = clients (snd (websocket_endpoint env w s))"
proof -
  have r: "websocket_endpoint env w s =
             (if isinstance_Exception e then Returned else Raised e, handler_finally w s2)"
    using assms by (simp add: websocket_endpoint_def Let_def)
  have a: "actions s2 = actions s"
    using receive_loop_actions[of "receives env" "s\<lparr>clients := add_client (listing_after_add env) w (clients s)\<rparr>"] assms(2)
    by simp
  show ?thesis
    unfolding r
    by (simp add: handler_finally_removes handler_finally_clients handler_finally_actions
          handler_finally_again a discard_absent discard_removes)
qed

text \<open>
  C4, as stated, fails: a handler whose \<open>receive_text\<close> raises a transport error returns
  without any \<open>close\<close> having been called.
\<close>

theorem handler_does_not_close_counterexample:
  "receive_result (receives handler_reset ! 1) = Some (Exception ''connection reset'')
   \<and> fst (websocket_endpoint handler_reset 3 server0) = Returned
   \<and> close_targets (actions (snd (websocket_endpoint handler_reset 3 server0))) = []"
  by (simp add: websocket_endpoint_def handler_reset_def server0_def add_client_def relist_def
        handler_finally_def discard_def Let_def)

theorem handler_exit_removes_connection_witness:
  "accept_result handler_reset = None
   \<and> fst (websocket_endpoint handler_reset 3 server0) = Returned
   \<and> clients (snd (websocket_endpoint handler_reset 3 server0)) = [1, 2]
   \<and> actions (snd (websocket_endpoint handler_reset 3 server0)) = []
   \<and> fst (websocket_endpoint handler_pruned 3 server0) = Returned
   \<and> clients (snd (websocket_endpoint handler_pruned 3 server0)) = [1, 2]"
proof -
  have a1: "accept_result handler_reset = None"
    by (simp add: handler_reset_def)
  have l1: "receive_loop (receives handler_reset) (server0\<lparr>clients := add_client (listing_after_add handler_reset) 3 (clients server0)\<rparr>)
              = (Raised (Exception ''connection reset''), server0\<lparr>clients := [3, 1, 2]\<rparr>)"
    by (simp add: handler_reset_def server0_def add_client_def relist_def Let_def)
  have a2: "accept_result handler_pruned = None"
    by (simp add: handler_pruned_def)
  have l2: "receive_loop (receives handler_pruned) (server0\<lparr>clients := add_client (listing_after_add handler_pruned) 3 (clients server0)\<rparr>)
              = (Raised WebSocketDisconnect, server0\<lparr>clients := [1, 2]\<rparr>)"
    by (simp add: handler_pruned_def server0_def add_client_def relist_def discard_def Let_def)
  note T1 = handler_exit_removes_connection[OF a1 l1]
  note T2 = handler_exit_removes_connection[OF a2 l2]
  have c1: "clients (snd (websocket_endpoint handler_reset 3 server0)) = [1, 2]"
    using T1 by (simp add: discard_def)
  have c2: "clients (snd (websocket_endpoint handler_pruned 3 server0)) = [1, 2]"
    using T2 by (simp add: discard_def)
  have r1: "fst (websocket_endpoint handler_reset 3 server0) = Returned"
    using T1 by simp
  have r2: "fst (websocket_endpoint handler_pruned 3 server0) = Returned"
    using T2 by simp
  have ac: "actions (snd (websocket_endpoint handler_reset 3 server0)) = []"
    using T1 by (simp add: server0_def)
  from a1 c1 c2 r1 r2 ac show ?thesis by simp
qed

subsection \<open>Shutdown\<close>

lemma close_all_ok:
  "\<forall>w\<in>set ws. sd_close_result env w \<noteq> Some CancelledError \<Longrightarrow>
     fst (close_all env ws s) = None
   \<and> actions (snd (close_all env ws s)) = actions s @ map Close ws
   \<and> last_io_stats (snd (close_all env ws s)) = last_io_stats s
   \<and> broadcast_task (snd (close_all env ws s)) = broadcast_task s"
  by (induction ws arbitrary: s)
     (auto simp: Let_def not_Exception_iff split: option.splits)

lemma close_and_clear_ok:
  assumes "\<forall>w\<in>set (clients s). sd_close_result env w \<noteq> Some CancelledError"
  shows "fst (close_and_clear env s) = Returned
       \<and> clients (snd (close_and_clear env s)) = []
       \<and> actions (snd (close_and_clear env s)) = actions s @ map Close (clients s)
       \<and> last_io_stats (snd (close_and_clear env s)) = last_io_stats s
       \<and> broadcast_task (snd (close_and_clear env s)) = broadcast_task s"
proof -
  obtain r s1 where c: "close_all env (clients s) s = (r, s1)"
    by (cases "close_all env (clients s) s")
  from close_all_ok[OF assms, of s] c have "r = None" "actions s1 = actions s @ map Close (clients s)"
     "last_io_stats s1 = last_io_stats s" "broadcast_task s1 = broadcast_task s"
    by simp_all
  then show ?thesis by (simp add: close_and_clear_def c)
qed


text \<open>
  C10. When \<open>broadcast_task\<close> is \<open>None\<close>, \<open>on_shutdown\<close> cancels nothing, calls
  \<open>close\<close> on every registered connection, whether or not the calls fail, empties the
  registry and returns normally.
\<close>

theorem on_shutdown_without_task:
  assumes "broadcast_task s = None"
    and "\<forall>w\<in>set (clients s). sd_close_result env w \<noteq> Some CancelledError"
  shows "fst (on_shutdown env s) = Returned
       \<and> clients (snd (on_shutdown env s)) = []
       \<and> actions (snd (on_shutdown env s)) = actions s @ map Close (clients s)
       \<and> broadcast_task (snd (on_shutdown env s)) = None"
  using close_and_clear_ok[OF assms(2)] assms(1) by (simp add: on_shutdown_def)

theorem on_shutdown_without_task_witness:
  "broadcast_task (server0\<lparr>broadcast_task := None\<rparr>) = None
   \<and> fst (on_shutdown shutdown_failing (server0\<lparr>broadcast_task := None\<rparr>)) = Returned
   \<and> clients (snd (on_shutdown shutdown_failing (server0\<lparr>broadcast_task := None\<rparr>))) = []
   \<and> actions (snd (on_shutdown shutdown_failing (server0\<lparr>broadcast_task := None\<rparr>)))
       = [Close 1, Close 2]"
proof -
  have a: "broadcast_task (server0\<lparr>broadcast_task := None\<rparr>) = None"
    by simp
  have b: "\<forall>w\<in>set (clients (server0\<lparr>broadcast_task := None\<rparr>)).
             sd_close_result shutdown_failing w \<noteq> Some CancelledError"
    by (simp add: shutdown_failing_def)
  have c: "actions (server0\<lparr>broadcast_task := None\<rparr>)
             @ map Close (clients (server0\<lparr>broadcast_task := None\<rparr>)) = [Close 1, Close 2]"
    by (simp add: server0_def)
  from on_shutdown_without_task[OF a b] a c show ?thesis by simp
qed



subsection \<open>The pairing of members and results\<close>

text \<open>
  When no handler touches the registry during the gather and the closes, line 109 sees the
  members of line 107 again, and the pass closes and discards exactly the members whose send
  raised an \<open>Exception\<close>.
\<close>

lemma zip_map_same: "zip ws (map f ws) = map (\<lambda>w. (w, f w)) ws"
  by (induction ws) simp_all

lemma prune_quiet:
  assumes "\<forall>w. during_close env w = []" and "\<forall>w. close_result env w \<noteq> Some CancelledError"
  shows "fst (prune env (map (\<lambda>w. (w, send_result env w)) ws) s) = None
       \<and> clients (snd (prune env (map (\<lambda>w. (w, send_result env w)) ws) s))
           = filter (\<lambda>w. \<not> (w \<in> set ws \<and> send_failed env w)) (clients s)
       \<and> close_targets (actions (snd (prune env (map (\<lambda>w. (w, send_result env w)) ws) s)))
           = close_targets (actions s) @ filter (send_failed env) ws"
proof (induction ws arbitrary: s)
  case Nil
  show ?case by simp
next
  case (Cons w ws)
  show ?case
  proof (cases "send_failed env w")
    case False
    then have "prune env (map (\<lambda>w. (w, send_result env w)) (w # ws)) s
                 = prune env (map (\<lambda>w. (w, send_result env w)) ws) s"
      by (auto simp: send_failed_def split: option.splits)
    with Cons[of s] False show ?thesis
      by (auto intro: filter_cong)
  next
    case True
    define s2 where "s2 = s\<lparr>actions := actions s @ [Close w], clients := discard w (clients s)\<rparr>"
    from True assms have "prune env (map (\<lambda>w. (w, send_result env w)) (w # ws)) s
                 = prune env (map (\<lambda>w. (w, send_result env w)) ws) s2"
      by (auto simp: send_failed_def s2_def Let_def not_Exception_iff split: option.splits)
    with Cons[of s2] True show ?thesis
      by (auto simp: s2_def discard_def removeAll_filter_not_eq close_targets_append
               intro: filter_cong)
  qed
qed

lemma quiet_pass_prunes_failed:
  assumes "\<not> sleep_cancelled env" and "gather_cancelled env = None"
    and "during_gather env = []" and "\<forall>w. during_close env w = []"
    and "\<forall>w. close_result env w \<noteq> Some CancelledError"
    and "cs = handlers_run (during_sleep env) (clients s)" and "cs \<noteq> []"
  shows "clients (snd (iteration fl ui env s)) = filter (\<lambda>w. \<not> send_failed env w) cs
       \<and> close_targets (actions (snd (iteration fl ui env s)))
           = close_targets (actions s) @ filter (send_failed env) cs"
proof -
  obtain m s2 where g: "get_metrics fl ui (reading env) (s\<lparr>clients := cs\<rparr>) = (Inr m, s2)"
     and s2: "clients s2 = cs" "close_targets (actions s2) = close_targets (actions s)"
    by (cases "get_metrics_try fl ui (reading env) (last_io_stats s)")
       (auto simp: get_metrics_cases close_targets_append)
  define s4 where "s4 = s2\<lparr>actions := actions s2 @ map (\<lambda>w. SendText w (json_dumps m)) cs\<rparr>"
  have it: "iteration fl ui env s = prune env (map (\<lambda>w. (w, send_result env w)) cs) s4"
    using assms g s2(1)
    by (simp add: iteration_def Let_def gather_eq zip_map_same s4_def)
  have "clients s4 = cs" "close_targets (actions s4) = close_targets (actions s)"
    using s2 by (simp_all add: s4_def close_targets_append close_targets_map_SendText)
  with prune_quiet[OF assms(4,5), of cs s4] show ?thesis
    unfolding it by (auto intro: filter_cong)
qed

text \<open>
  C1. The fan-out of line 107 goes to the members of the snapshot taken there
  (\<open>iteration_uncancelled\<close>), but line 109 calls \<open>list(clients)\<close> again. Here the
  registry is 1, 2; the send to 1 fails and the send to 2 succeeds; the handler of 1
  discards it during the gather. The second list is 2 alone, \<open>zip\<close> pairs it with the
  result of the send to 1, and connection 2 is closed and discarded.
\<close>

theorem prune_pairs_with_second_snapshot:
  "send_result env_race_a 1 = Some (Exception ''broken pipe'')
   \<and> send_result env_race_a 2 = None
   \<and> during_gather env_race_a = [Discarded 1]
   \<and> send_targets (actions (snd (iteration floats0 2 env_race_a server0))) = [1, 2]
   \<and> close_targets (actions (snd (iteration floats0 2 env_race_a server0))) = [2]
   \<and> clients (snd (iteration floats0 2 env_race_a server0)) = []"
  by (simp add: iteration_def get_metrics_cases get_metrics_try_def getattr_counters_def
        gather_eq json_dumps_def discard_def example_defs Let_def)

lemma iteration_race_b:
  "iteration floats0 2 env_race_b server0 =
     (None, \<lparr>clients = [2],
             last_io_stats = Some \<lparr>read_bytes = 5000, write_bytes = 9000\<rparr>,
             broadcast_task = Some Pending,
             actions = [Sample, SendText 1 (Json metrics0), SendText 2 (Json metrics0)]\<rparr>)"
  by (simp add: iteration_def get_metrics_cases get_metrics_try_def getattr_counters_def
        gather_eq json_dumps_def discard_def example_defs Let_def)

text \<open>
  C2. In the same race with the failure on the other side (the send to 2 fails, the
  handler of 1 discards it during the gather), \<open>zip\<close> pairs 2 with the successful result
  of the send to 1: connection 2 is neither closed nor discarded in that pass, and the
  next pass sends to it again.
\<close>

theorem failed_subscriber_survives_pass:
  "send_result env_race_b 2 = Some (Exception ''broken pipe'')
   \<and> during_gather env_race_b = [Discarded 1]
   \<and> fst (iteration floats0 2 env_race_b server0) = None
   \<and> close_targets (actions (snd (iteration floats0 2 env_race_b server0))) = []
   \<and> clients (snd (iteration floats0 2 env_race_b server0)) = [2]
   \<and> send_targets (actions (snd (while_true floats0 2 [env_race_b, env_quiet] server0))) = [1, 2, 2]"
proof -
  have e: "send_result env_race_b 2 = Some (Exception ''broken pipe'')
         \<and> during_gather env_race_b = [Discarded 1]"
    by (simp add: env_race_b_def env_quiet_def)
  have n: "while_true floats0 2 [env_race_b, env_quiet] server0
             = while_true floats0 2 [env_quiet] (snd (iteration floats0 2 env_race_b server0))"
    by (subst while_true_Cons) (simp add: iteration_race_b)
  have q: "send_targets (actions (snd (while_true floats0 2 [env_quiet] (snd (iteration floats0 2 env_race_b server0)))))
             = [1, 2, 2]"
    unfolding iteration_race_b
    by (simp add: iteration_def get_metrics_cases get_metrics_try_def getattr_counters_def
        gather_eq json_dumps_def discard_def example_defs Let_def)
  from e n q show ?thesis by (simp add: iteration_race_b)
qed

end
